theory Spec2Isabelle
  imports Main "HOL-Library.Word" "HOL-Library.Monad_Syntax"
begin

section \<open>The Genaro consensus engine: data model\<close>

text \<open>
  The engine is one Go file. Go's \<open>uint64\<close> is \<open>64 word\<close> (arithmetic wraps),
  \<open>*big.Int\<close> is \<open>int\<close>, a byte slice is a \<open>string\<close> (a list of 8-bit characters).
  A run-time panic of the Go code (integer division by zero, a nil dereference) is a
  value of the model: \<open>None\<close> for the arithmetic functions, \<open>Panic\<close> for the
  verification result.
\<close>

type_synonym u64 = "64 word"
type_synonym bytes = string
type_synonym address = string
type_synonym hash = string

subsection \<open>Constants of the source\<close>

definition epochLength :: u64 where "epochLength = 5000"
definition epochPerYear :: u64 where "epochPerYear = 12"
definition SurplusCoinAddress :: bytes where "SurplusCoinAddress = ''aaa''"
definition CoinActualRewardsAddress :: bytes where "CoinActualRewardsAddress = ''bbb''"
definition StorageActualRewardsAddress :: bytes where "StorageActualRewardsAddress = ''ccc''"
definition Pre :: bytes where "Pre = ''pre''"
definition TotalActualRewardsAddress :: bytes where "TotalActualRewardsAddress = ''ggg''"

definition coinRewardsRatio :: int where "coinRewardsRatio = 1250"
definition storageRewardsRatio :: int where "storageRewardsRatio = 1250"
definition ratioPerYear :: int where "ratioPerYear = 700"
definition base :: int where "base = 10000"

definition AddressLength :: nat where "AddressLength = 20"

subsection \<open>Arbitrary-precision integers\<close>

text \<open>
  \<open>big.Int.Div\<close> is Euclidean division (the remainder is never negative) and panics
  on a zero divisor. \<open>Uint64()\<close> returns the low 64 bits of the absolute value,
  \<open>Int64()\<close> the low 64 bits in two's complement. \<open>int64(w)\<close> of a \<open>uint64\<close>
  reads the same bits as signed: \<open>sint w\<close>.
\<close>

definition euclid_div :: "int \<Rightarrow> int \<Rightarrow> int" where
  "euclid_div x y = (if 0 < y then x div y else - (x div (- y)))"

definition big_Div :: "int \<Rightarrow> int \<Rightarrow> int option" where
  "big_Div x y = (if y = 0 then None else Some (euclid_div x y))"

definition big_Uint64 :: "int \<Rightarrow> u64" where
  "big_Uint64 x = word_of_int \<bar>x\<bar>"

definition big_Int64 :: "int \<Rightarrow> u64" where
  "big_Int64 x = word_of_int x"

subsection \<open>Addresses\<close>

text \<open>
  Modelled from the spec: \<open>common.BytesToAddress\<close> is not under src/. The reward
  ledger balances of the spec (the surplus pool, the two actual-rewards counters, their
  previous-period snapshots and the total-rewards-paid accumulator) are balances of the
  20-byte addresses named by the byte strings of the source: the bytes right-aligned in
  20 bytes, padded with zero bytes on the left, a longer input keeping its last 20 bytes.
\<close>

definition BytesToAddress :: "bytes \<Rightarrow> address" where
  "BytesToAddress b =
     (let b' = (if AddressLength < length b then drop (length b - AddressLength) b else b)
      in replicate (AddressLength - length b') (CHR 0x00) @ b')"

subsection \<open>Configuration and ledger state\<close>

record GenaroConfig =
  Epoch :: u64
  ElectionPeriod :: u64
  ValidPeriod :: u64
  CommitteeMaxSize :: u64

record BackStake =
  BackAddr :: address
  BackBlockNumber :: u64

text \<open>
  Modelled from the spec: the ledger/state store (\<open>state.StateDB\<close>) is not under src/.
  It exposes balance get/add/set/sub by address, the candidate roster, the storage
  contribution ("heft") metric of a candidate at a block, and the pending-withdrawal list
  get/set. A balance that was never written reads as zero; balances are big integers and
  \<open>SubBalance\<close> subtracts without a floor.
\<close>

record StateDB =
  balances :: "address \<Rightarrow> int"
  candidates :: "address list"
  heftLastDiff :: "address \<Rightarrow> u64 \<Rightarrow> u64"
  alreadyBackStakeList :: "BackStake list"

text \<open>
  Modelled from the spec: the accessors of the ledger/state store, not under src/.
  \<open>GetBalance\<close> returns the balance as a value: what the reward functions compute
  in place on the big integer it returns is not written to the ledger.
\<close>

definition GetBalance :: "StateDB \<Rightarrow> address \<Rightarrow> int" where
  "GetBalance st a = balances st a"

definition SetBalance :: "StateDB \<Rightarrow> address \<Rightarrow> int \<Rightarrow> StateDB" where
  "SetBalance st a v = st\<lparr>balances := (balances st)(a := v)\<rparr>"

definition AddBalance :: "StateDB \<Rightarrow> address \<Rightarrow> int \<Rightarrow> StateDB" where
  "AddBalance st a v = st\<lparr>balances := (balances st)(a := balances st a + v)\<rparr>"

definition SubBalance :: "StateDB \<Rightarrow> address \<Rightarrow> int \<Rightarrow> StateDB" where
  "SubBalance st a v = st\<lparr>balances := (balances st)(a := balances st a - v)\<rparr>"

definition GetCandidates :: "StateDB \<Rightarrow> address list" where
  "GetCandidates st = candidates st"

definition GetHeftLastDiff :: "StateDB \<Rightarrow> address \<Rightarrow> u64 \<Rightarrow> u64" where
  "GetHeftLastDiff st c blockNumber = heftLastDiff st c blockNumber"

definition GetAlreadyBackStakeList :: "StateDB \<Rightarrow> BackStake list" where
  "GetAlreadyBackStakeList st = alreadyBackStakeList st"

definition SetAlreadyBackStakeList :: "StateDB \<Rightarrow> BackStake list \<Rightarrow> StateDB" where
  "SetAlreadyBackStakeList st l = st\<lparr>alreadyBackStakeList := l\<rparr>"

subsection \<open>Block headers\<close>

text \<open>
  Modelled from the spec: \<open>types.Header\<close> and the header signature codec
  (\<open>ExtraData\<close>, \<open>UnmarshalToExtra\<close>, \<open>ResetHeaderSignature\<close>,
  \<open>SetHeaderSignature\<close>) are not under src/. The header has the fields that
  \<open>sigHash\<close> lists. Its extension payload is held decoded: a detachable signature
  and the serialized committee rank list with the per-member proportions; \<open>None\<close> is
  an absent or malformed payload, for which \<open>UnmarshalToExtra\<close> returns nil. Setting
  and clearing the signature are pure mutators of the payload's signature.
\<close>

record ExtraData =
  CommitteeRank :: bytes
  Signature :: bytes
  Proportion :: "u64 list"

record Header =
  ParentHash :: hash
  UncleHash :: hash
  Coinbase :: address
  Root :: hash
  TxHash :: hash
  ReceiptHash :: hash
  Bloom :: bytes
  Difficulty :: int
  Number :: int
  GasLimit :: u64
  GasUsed :: u64
  Time :: int
  Extra :: "ExtraData option"
  MixDigest :: hash
  Nonce :: bytes

text \<open>
  Modelled from the spec: the three operations of the header signature codec, not under
  src/. \<open>UnmarshalToExtra\<close> reads the payload of the header;
  \<open>ResetHeaderSignature\<close> clears its signature and \<open>SetHeaderSignature\<close> sets
  it, and neither touches anything else.
\<close>

definition UnmarshalToExtra :: "Header \<Rightarrow> ExtraData option" where
  "UnmarshalToExtra header = Extra header"

definition ResetHeaderSignature :: "Header \<Rightarrow> Header" where
  "ResetHeaderSignature header =
     header\<lparr>Extra := map_option (\<lambda>e. e\<lparr>Signature := []\<rparr>) (Extra header)\<rparr>"

definition SetHeaderSignature :: "Header \<Rightarrow> bytes \<Rightarrow> Header" where
  "SetHeaderSignature header signature =
     header\<lparr>Extra := map_option (\<lambda>e. e\<lparr>Signature := signature\<rparr>) (Extra header)\<rparr>"

section \<open>Committee ranking\<close>

text \<open>
  Modelled from the spec: \<open>state.CandidateInfo\<close> is not under src/: one record per
  staking candidate, with the signer address, the stake amount and the heft metric.
  \<open>Rank\<close> adds the stakes in a \<open>uint64\<close>, so a stake is a \<open>uint64\<close>.
  \<open>candidateInfos.Apply()\<close> and the order that \<open>sort.Sort(candidateInfos)\<close> puts
  the candidates in belong to the same absent package; \<open>Rank\<close> takes both as
  parameters.
\<close>

record CandidateInfo =
  Signer :: address
  Heft :: u64
  Stake :: u64

type_synonym CandidateInfos = "CandidateInfo list"

definition zero_address :: address where
  "zero_address = replicate AddressLength (CHR 0x00)"

fun Rank_total :: "CandidateInfos \<Rightarrow> u64 \<Rightarrow> u64" where
  "Rank_total [] total' = total'"
| "Rank_total (c # cs) total' = Rank_total cs (total' + Stake c)"

text \<open>
  The second loop of \<open>Rank\<close>, from index \<open>i\<close> on. The \<open>/\<close> of two \<open>uint64\<close>
  panics on a zero divisor: \<open>None\<close>.
\<close>

fun Rank_fill ::
  "CandidateInfos \<Rightarrow> nat \<Rightarrow> u64 \<Rightarrow> address list \<times> u64 list \<Rightarrow> (address list \<times> u64 list) option"
  where
  "Rank_fill [] i total' (committeeRank, proportion) = Some (committeeRank, proportion)"
| "Rank_fill (c # cs) i total' (committeeRank, proportion) =
     (if total' = 0 then None
      else Rank_fill cs (Suc i) total'
             (committeeRank[i := Signer c],
              proportion[i := Stake c * word_of_int base div total']))"

definition Rank ::
  "(CandidateInfos \<Rightarrow> CandidateInfos) \<Rightarrow> (CandidateInfos \<Rightarrow> CandidateInfos) \<Rightarrow>
   CandidateInfos \<Rightarrow> (address list \<times> u64 list) option" where
  "Rank Apply sort_Sort candidateInfos0 =
     (let candidateInfos = sort_Sort (Apply candidateInfos0);
          committeeRank = replicate (length candidateInfos) zero_address;
          proportion = replicate (length candidateInfos) (0 :: u64);
          total' = Rank_total candidateInfos 0
      in if total' = 0 then Some (committeeRank, proportion)
         else Rank_fill candidateInfos 0 total' (committeeRank, proportion))"

section \<open>Reward distribution engine\<close>

subsection \<open>Year boundary\<close>

definition updateEpochYearRewards :: "StateDB \<Rightarrow> StateDB" where
  "updateEpochYearRewards state0 =
     (let surplusrewards = GetBalance state0 (BytesToAddress SurplusCoinAddress);
          state1 = SetBalance state0 (BytesToAddress (Pre @ SurplusCoinAddress)) surplusrewards;
          totalRewards = GetBalance state1 (BytesToAddress TotalActualRewardsAddress);
          state2 = SubBalance state1 (BytesToAddress SurplusCoinAddress) totalRewards;
          state3 = SetBalance state2 (BytesToAddress TotalActualRewardsAddress) 0
      in state3)"

subsection \<open>Coefficients\<close>

text \<open>
  The package variables \<open>coinRewardsRatio\<close>, \<open>storageRewardsRatio\<close>, \<open>ratioPerYear\<close>
  and \<open>base\<close> are small Go ints, so \<open>big.NewInt(int64(v))\<close> is their value.
  \<open>config.Epoch\<close> is a \<open>uint64\<close>: \<open>big.NewInt(int64(config.Epoch))\<close> is
  \<open>sint (Epoch config)\<close>. The result \<open>None\<close> is the panic of \<open>Div\<close> on a zero
  divisor.
\<close>

definition getCoinCofficient :: "GenaroConfig \<Rightarrow> int \<Rightarrow> int \<Rightarrow> u64 option" where
  "getCoinCofficient config coinrewards surplusRewards =
     (if coinrewards = 0 then Some (word_of_int base)
      else do {
        planrewards \<leftarrow> Some (surplusRewards * coinRewardsRatio);
        planrewards \<leftarrow> big_Div planrewards base;
        planrewards \<leftarrow> big_Div planrewards ratioPerYear;
        planrewards \<leftarrow> Some (planrewards * base);
        planrewards \<leftarrow> big_Div planrewards (sint (Epoch config));
        planrewards \<leftarrow> Some (planrewards * base);
        planrewards \<leftarrow> big_Div planrewards coinrewards;
        Some (big_Uint64 planrewards)
      })"

definition getStorageCoefficient :: "GenaroConfig \<Rightarrow> int \<Rightarrow> int \<Rightarrow> u64 option" where
  "getStorageCoefficient config storagerewards surplusRewards =
     (if storagerewards = 0 then Some (word_of_int base)
      else do {
        planrewards \<leftarrow> Some (surplusRewards * storageRewardsRatio);
        planrewards \<leftarrow> big_Div planrewards base;
        planrewards \<leftarrow> big_Div planrewards ratioPerYear;
        planrewards \<leftarrow> Some (planrewards * base);
        planrewards \<leftarrow> big_Div planrewards (sint (Epoch config));
        planrewards \<leftarrow> Some (planrewards * base);
        planrewards \<leftarrow> big_Div planrewards storagerewards;
        Some (big_Uint64 planrewards)
      })"

subsection \<open>Per-block rewards\<close>

text \<open>The \<open>%\<close> of two \<open>uint64\<close> panics on a zero divisor.\<close>

definition u64_mod :: "u64 \<Rightarrow> u64 \<Rightarrow> u64 option" where
  "u64_mod a b = (if b = 0 then None else Some (a mod b))"

definition accumulateInterestRewards ::
  "GenaroConfig \<Rightarrow> StateDB \<Rightarrow> Header \<Rightarrow> u64 \<Rightarrow> u64 \<Rightarrow> StateDB option" where
  "accumulateInterestRewards config state header proportion blockNumber =
     do {
       let preCoinRewards = GetBalance state (BytesToAddress (Pre @ CoinActualRewardsAddress));
       r \<leftarrow> u64_mod blockNumber (Epoch config * epochPerYear);
       let preSurplusRewards =
         (if r = 0 then GetBalance state (BytesToAddress (Pre @ SurplusCoinAddress))
          else GetBalance state (BytesToAddress SurplusCoinAddress));
       coefficient \<leftarrow> getCoinCofficient config preCoinRewards preSurplusRewards;
       let surplusRewards = GetBalance state (BytesToAddress SurplusCoinAddress);
       planRewards \<leftarrow> Some (surplusRewards * coinRewardsRatio);
       planRewards \<leftarrow> big_Div planRewards base;
       planRewards \<leftarrow> big_Div planRewards (sint epochPerYear);
       planRewards \<leftarrow> Some (planRewards * sint coefficient);
       planRewards \<leftarrow> big_Div planRewards base;
       planRewards \<leftarrow> Some (planRewards * sint proportion);
       planRewards \<leftarrow> big_Div planRewards base;
       blockReward \<leftarrow> big_Div planRewards (sint (Epoch config));
       let reward = blockReward;
       let state = AddBalance state (Coinbase header) reward;
       let state = AddBalance state (BytesToAddress CoinActualRewardsAddress) reward;
       Some state
     }"

text \<open>
  The first loop of \<open>accumulateStorageRewards\<close>: the heft contribution of every
  candidate and their \<open>uint64\<close> total.
\<close>

fun storage_contributes :: "StateDB \<Rightarrow> u64 \<Rightarrow> address list \<Rightarrow> u64 list" where
  "storage_contributes state blockNumber [] = []"
| "storage_contributes state blockNumber (c # cs) =
     GetHeftLastDiff state c blockNumber # storage_contributes state blockNumber cs"

fun storage_total :: "u64 list \<Rightarrow> u64 \<Rightarrow> u64" where
  "storage_total [] total' = total'"
| "storage_total (x # contributes) total' = storage_total contributes (total' + x)"

text \<open>
  The second loop. \<open>reward.Mul(blockReward, contribute)\<close> stores the product in
  \<open>reward\<close>; the next statement \<open>reward.Div(blockReward, total)\<close> stores
  \<open>blockReward / total\<close> in \<open>reward\<close>, over the product.
\<close>

fun storage_allocate ::
  "int \<Rightarrow> u64 \<Rightarrow> address list \<Rightarrow> u64 list \<Rightarrow> StateDB \<Rightarrow> StateDB option" where
  "storage_allocate blockReward total' (c # cs) (contribute # contributes) state =
     do {
       reward \<leftarrow> Some (0 :: int);
       reward \<leftarrow> Some (blockReward * sint contribute);
       reward \<leftarrow> big_Div blockReward (sint total');
       let state = AddBalance state c reward;
       let state = AddBalance state (BytesToAddress StorageActualRewardsAddress) reward;
       storage_allocate blockReward total' cs contributes state
     }"
| "storage_allocate blockReward total' cs contributes state = Some state"

definition accumulateStorageRewards ::
  "GenaroConfig \<Rightarrow> StateDB \<Rightarrow> u64 \<Rightarrow> StateDB option" where
  "accumulateStorageRewards config state blockNumber =
     do {
       let preStorageRewards =
         GetBalance state (BytesToAddress (Pre @ StorageActualRewardsAddress));
       r \<leftarrow> u64_mod blockNumber (Epoch config * epochPerYear);
       let preSurplusRewards =
         (if r = 0 then GetBalance state (BytesToAddress (Pre @ SurplusCoinAddress))
          else GetBalance state (BytesToAddress SurplusCoinAddress));
       coefficient \<leftarrow> getStorageCoefficient config preStorageRewards preSurplusRewards;
       let surplusRewards = GetBalance state (BytesToAddress SurplusCoinAddress);
       planRewards \<leftarrow> Some (surplusRewards * storageRewardsRatio);
       planRewards \<leftarrow> big_Div planRewards base;
       planRewards \<leftarrow> big_Div planRewards (sint epochPerYear);
       planRewards \<leftarrow> Some (planRewards * sint coefficient);
       planRewards \<leftarrow> big_Div planRewards base;
       blockReward \<leftarrow> big_Div planRewards (sint (Epoch config));
       let cs = GetCandidates state;
       let contributes = storage_contributes state blockNumber cs;
       let total' = storage_total contributes 0;
       if total' = 0 then Some state
       else storage_allocate blockReward total' cs contributes state
     }"

subsection \<open>The coefficient as the specification words it\<close>

text \<open>
  The planned reward per epoch "derived from the surplus pool the same way as the
  per-block planned reward": the surplus times the coin ratio over base, divided by the
  per-year epoch count, then by the epoch length; and the coefficient the specification
  states from it.
\<close>

definition spec_plannedPerEpoch :: "GenaroConfig \<Rightarrow> int \<Rightarrow> int" where
  "spec_plannedPerEpoch config surplus =
     surplus * coinRewardsRatio div base div sint epochPerYear div sint (Epoch config)"

definition spec_coefficient :: "GenaroConfig \<Rightarrow> int \<Rightarrow> int \<Rightarrow> int" where
  "spec_coefficient config actualPaid surplus =
     (if actualPaid = 0 then base
      else (spec_plannedPerEpoch config surplus * base) div actualPaid)"

section \<open>Back-stake maturation\<close>

text \<open>
  \<open>IsBackStakeBlockNumber\<close> is not under src/; both handlers take it as the
  parameter \<open>isBack\<close>. In the loops, removing the entry at \<open>i\<close> is followed by
  \<open>i--\<close> and then by the \<open>i++\<close> of the \<open>for\<close> statement: the next iteration
  looks at index \<open>i\<close> again.
\<close>

function handleAlreadyBackStakeList_loop ::
  "(GenaroConfig \<Rightarrow> u64 \<Rightarrow> u64 \<Rightarrow> bool) \<Rightarrow> GenaroConfig \<Rightarrow> u64 \<Rightarrow> nat \<Rightarrow> BackStake list \<Rightarrow>
   BackStake list" where
  "handleAlreadyBackStakeList_loop isBack config blockNumber i backlist =
     (if i < length backlist then
        (let back = backlist ! i in
         if isBack config (BackBlockNumber back) blockNumber
         then handleAlreadyBackStakeList_loop isBack config blockNumber i
                (take i backlist @ drop (i + 1) backlist)
         else handleAlreadyBackStakeList_loop isBack config blockNumber (i + 1) backlist)
      else backlist)"
  by pat_completeness auto
termination
  by (relation "measure (\<lambda>(isBack, config, blockNumber, i, backlist). length backlist - i)")
    auto

definition handleAlreadyBackStakeList ::
  "(GenaroConfig \<Rightarrow> u64 \<Rightarrow> u64 \<Rightarrow> bool) \<Rightarrow> GenaroConfig \<Rightarrow> Header \<Rightarrow> StateDB \<Rightarrow> StateDB"
  where
  "handleAlreadyBackStakeList isBack config header state =
     (let blockNumber = big_Uint64 (Number header);
          backlist = GetAlreadyBackStakeList state;
          backlist = handleAlreadyBackStakeList_loop isBack config blockNumber 0 backlist
      in SetAlreadyBackStakeList state backlist)"

function handleApplyBackStakeList_loop ::
  "(GenaroConfig \<Rightarrow> u64 \<Rightarrow> u64 \<Rightarrow> bool) \<Rightarrow> GenaroConfig \<Rightarrow> u64 \<Rightarrow> nat \<Rightarrow> BackStake list \<Rightarrow>
   BackStake list" where
  "handleApplyBackStakeList_loop isBack config blockNumber i backlist =
     (if i < length backlist then
        (let back = backlist ! i in
         if isBack config (BackBlockNumber back) blockNumber
         then handleApplyBackStakeList_loop isBack config blockNumber i
                (take i backlist @ drop (i + 1) backlist)
         else handleApplyBackStakeList_loop isBack config blockNumber (i + 1) backlist)
      else backlist)"
  by pat_completeness auto
termination
  by (relation "measure (\<lambda>(isBack, config, blockNumber, i, backlist). length backlist - i)")
    auto

definition handleApplyBackStakeList ::
  "(GenaroConfig \<Rightarrow> u64 \<Rightarrow> u64 \<Rightarrow> bool) \<Rightarrow> GenaroConfig \<Rightarrow> Header \<Rightarrow> StateDB \<Rightarrow> StateDB"
  where
  "handleApplyBackStakeList isBack config header state =
     (let blockNumber = big_Uint64 (Number header);
          backlist = GetAlreadyBackStakeList state;
          backlist = handleApplyBackStakeList_loop isBack config blockNumber 0 backlist
      in SetAlreadyBackStakeList state backlist)"

section \<open>Block production and verification\<close>

subsection \<open>Errors, snapshots and collaborators\<close>

datatype error =
    errEmptyExtra
  | errUnauthorized
  | errInvalidEpochBlock
  | errInvalidDifficulty
  | errUnknownBlock
  | ErrUnknownAncestor
  | ErrFutureBlock
  | ErrExternal string

text \<open>
  A call returns a value, returns an error, or panics. \<open>ErrExternal\<close> stands for the
  errors that the collaborators return (the snapshot store, the signature recovery).
\<close>

datatype 'a result = Ok 'a | Err error | Panic

text \<open>
  Modelled from the spec: \<open>CommitteeSnapshot\<close> and its method
  \<open>getCurrentRankIndex\<close> are not under src/. A snapshot has the epoch index it governs,
  the block number and hash it was derived from, the ordered rank list of member addresses
  (rank 0 first), the committee size and the map from a member to its proportion. The
  rank index of an address is its position in the rank list, and negative when the address
  is not in the list.
\<close>

record CommitteeSnapshot =
  WriteBlockNumber :: u64
  WriteBlockHash :: hash
  EpochNumber :: u64
  CommitteeSize :: u64
  RankList :: "address list"
  Committee :: "address \<rightharpoonup> u64"

text \<open>
  Modelled from the spec: \<open>getCurrentRankIndex\<close>, not under src/, as a scan of the
  rank list from index 0 that returns the first index holding the address and \<open>-1\<close>
  when none does.
\<close>

fun rank_index :: "address list \<Rightarrow> address \<Rightarrow> int \<Rightarrow> int" where
  "rank_index [] addr i = - 1"
| "rank_index (v # rest) addr i = (if v = addr then i else rank_index rest addr (i + 1))"

definition getCurrentRankIndex :: "CommitteeSnapshot \<Rightarrow> address \<Rightarrow> int" where
  "getCurrentRankIndex snap addr = rank_index (RankList snap) addr 0"

text \<open>
  The engine, with the fields of \<open>Genaro\<close> that the modelled functions read. What they
  reach outside the file is a record of collaborators: the wall clock
  (\<open>time.Now().Unix()\<close>, an \<open>int64\<close>), the result of \<open>g.snapshot\<close> for an epoch
  (its cache, store and chain lookups are not under src/),
  \<open>GetTurnOfCommiteeByBlockNumber\<close>, the chain reader's \<open>GetHeader\<close>, the snapshot's
  \<open>inturn\<close> predicate, and the cryptography: the hash of the RLP encoding of a field
  list, public-key recovery and \<open>Keccak256\<close>.
\<close>

record Genaro =
  config :: GenaroConfig
  signer :: address

datatype header_field =
    FHash hash
  | FAddress address
  | FBytes bytes
  | FBig int
  | FU64 u64
  | FExtra "ExtraData option"

record Collaborators =
  now :: u64
  snapshot :: "u64 \<Rightarrow> error + CommitteeSnapshot"
  GetTurnOfCommiteeByBlockNumber :: "GenaroConfig \<Rightarrow> u64 \<Rightarrow> u64"
  GetHeader :: "hash \<Rightarrow> u64 \<Rightarrow> Header option"
  inturn :: "CommitteeSnapshot \<Rightarrow> u64 \<Rightarrow> address \<Rightarrow> bool"
  rlp_Keccak256 :: "header_field list \<Rightarrow> hash"
  crypto_Ecrecover :: "hash \<Rightarrow> bytes \<Rightarrow> error + bytes"
  Keccak256 :: "bytes \<Rightarrow> bytes"

subsection \<open>The header signature codec\<close>

definition sigHash :: "Collaborators \<Rightarrow> Header \<Rightarrow> hash" where
  "sigHash env header =
     rlp_Keccak256 env
       [FHash (ParentHash header),
        FHash (UncleHash header),
        FAddress (Coinbase header),
        FHash (Root header),
        FHash (TxHash header),
        FHash (ReceiptHash header),
        FBytes (Bloom header),
        FBig (Difficulty header),
        FBig (Number header),
        FU64 (GasLimit header),
        FU64 (GasUsed header),
        FBig (Time header),
        FExtra (Extra header),
        FHash (MixDigest header),
        FBytes (Nonce header)]"

text \<open>
  \<open>copy(signer[:], src)\<close> into a fresh address: the first 20 bytes of \<open>src\<close>, the
  rest left zero. A slice expression \<open>b[n:]\<close> panics when \<open>b\<close> is shorter than
  \<open>n\<close>.
\<close>

definition copy_address :: "bytes \<Rightarrow> address" where
  "copy_address src =
     take AddressLength src @ replicate (AddressLength - length src) (CHR 0x00)"

definition ecrecover :: "Collaborators \<Rightarrow> Header \<Rightarrow> Header \<times> address result" where
  "ecrecover env header0 =
     (case UnmarshalToExtra header0 of
        None \<Rightarrow> (header0, Err errEmptyExtra)
      | Some extraData \<Rightarrow>
          (let signature = Signature extraData;
               header = ResetHeaderSignature header0;
               recovered = crypto_Ecrecover env (sigHash env header) signature;
               header = SetHeaderSignature header signature
           in case recovered of
                Inl err \<Rightarrow> (header, Err err)
              | Inr pubkey \<Rightarrow>
                  (if length pubkey < 1 then (header, Panic)
                   else if length (Keccak256 env (drop 1 pubkey)) < 12 then (header, Panic)
                   else (header,
                         Ok (copy_address (drop 12 (Keccak256 env (drop 1 pubkey))))))))"

subsection \<open>Difficulty\<close>

definition CalcDifficulty :: "CommitteeSnapshot \<Rightarrow> address \<Rightarrow> u64 \<Rightarrow> int" where
  "CalcDifficulty snap addr blockNumber =
     (let index = getCurrentRankIndex snap addr in
      if index < 0 then uint (0 :: u64)
      else (let difficult = CommitteeSize snap - word_of_int index
            in uint difficult))"

subsection \<open>Prepare\<close>

definition zero_nonce :: bytes where
  "zero_nonce = replicate 8 (CHR 0x00)"

definition zero_hash :: hash where
  "zero_hash = replicate 32 (CHR 0x00)"

text \<open>
  \<open>Prepare\<close> writes the header it is given and returns an error or nil: the model
  returns the header as written and \<open>None\<close> for nil.
\<close>

definition Prepare :: "Collaborators \<Rightarrow> Genaro \<Rightarrow> Header \<Rightarrow> Header \<times> error option" where
  "Prepare env g header0 =
     (let header = header0\<lparr>Coinbase := signer g\<rparr>;
          header = header\<lparr>Nonce := zero_nonce\<rparr>;
          number = big_Uint64 (Number header)
      in case snapshot env (GetTurnOfCommiteeByBlockNumber env (config g) number) of
           Inl err \<Rightarrow> (header, Some err)
         | Inr snap \<Rightarrow>
             (let header = header\<lparr>Difficulty := CalcDifficulty snap (signer g) number\<rparr>;
                  header = header\<lparr>MixDigest := zero_hash\<rparr>
              in case GetHeader env (ParentHash header) (number - 1) of
                   None \<Rightarrow> (header, Some ErrUnknownAncestor)
                 | Some parent \<Rightarrow>
                     (let header = header\<lparr>Time := sint (now env)\<rparr>
                      in if sint (big_Int64 (Time header)) < sint (big_Int64 (Time parent))
                         then (header\<lparr>Time := sint (big_Int64 (Time parent) + 1)\<rparr>, None)
                         else (header, None))))"

subsection \<open>VerifySeal\<close>

text \<open>
  The checks of \<open>VerifySeal\<close> from the committee snapshot on. \<open>time.Second\<close> is
  \<open>1000000000\<close>; the delay is computed in \<open>uint64\<close>.
\<close>

definition VerifySeal_signer ::
  "Collaborators \<Rightarrow> Genaro \<Rightarrow> Header \<Rightarrow> u64 \<Rightarrow> Header \<times> unit result" where
  "VerifySeal_signer env g header0 blockNumber =
     (case snapshot env (GetTurnOfCommiteeByBlockNumber env (config g) blockNumber) of
        Inl err \<Rightarrow> (header0, Err err)
      | Inr snap \<Rightarrow>
          (case ecrecover env header0 of
             (header, Err err) \<Rightarrow> (header, Err err)
           | (header, Panic) \<Rightarrow> (header, Panic)
           | (header, Ok signer') \<Rightarrow>
               (if Committee snap signer' = None then (header, Err errUnauthorized)
                else case GetHeader env (ParentHash header) (blockNumber - 1) of
                   None \<Rightarrow> (header, Err ErrUnknownAncestor)
                 | Some parent \<Rightarrow>
                     (if big_Uint64 (Time header) < big_Uint64 (Time parent)
                      then (header, Err errUnknownBlock)
                      else if \<not> inturn env snap blockNumber signer'
                      then (let bias = big_Uint64 (Difficulty header);
                                delay = bias * 1000000000
                            in if big_Uint64 (Time header)
                                    < big_Uint64 (Time parent) + delay div 1000000000
                               then (header, Err errInvalidDifficulty)
                               else (header, Ok ()))
                      else (header, Ok ())))))"

definition VerifySeal :: "Collaborators \<Rightarrow> Genaro \<Rightarrow> Header \<Rightarrow> Header \<times> unit result" where
  "VerifySeal env g header =
     (let blockNumber = big_Uint64 (Number header) in
      if blockNumber = 0 then (header, Err errUnknownBlock)
      else if sint (now env) < Time header then (header, Err ErrFutureBlock)
      else if Epoch (config g) = 0 then (header, Panic)
      else (let epochPoint = (blockNumber mod Epoch (config g) = 0) in
            if epochPoint then
              (case UnmarshalToExtra header of
                 None \<Rightarrow> (header, Panic)
               | Some extraData \<Rightarrow>
                   (let committeeSize =
                          (word_of_nat (length (CommitteeRank extraData) div AddressLength) :: u64)
                    in if committeeSize = 0 \<or> CommitteeMaxSize (config g) < committeeSize
                       then (header, Err errInvalidEpochBlock)
                       else VerifySeal_signer env g header blockNumber))
            else VerifySeal_signer env g header blockNumber))"

section \<open>Example inputs\<close>

text \<open>
  A committee of three, the engine of its second member with an epoch of 5000 blocks and
  at most five committee members, and the header of the epoch-boundary block 5000 with an
  empty committee list, on a parent with timestamp 100. The example collaborators find
  the snapshot and the parent, read the clock at 100, and fail to recover a signer.
\<close>

definition example_snapshot :: CommitteeSnapshot where
  "example_snapshot =
     \<lparr>WriteBlockNumber = 0, WriteBlockHash = [], EpochNumber = 0, CommitteeSize = 3,
      RankList = [''AAAAAAAAAAAAAAAAAAAA'', ''BBBBBBBBBBBBBBBBBBBB'', ''CCCCCCCCCCCCCCCCCCCC''],
      Committee = [''AAAAAAAAAAAAAAAAAAAA'' \<mapsto> 6000, ''BBBBBBBBBBBBBBBBBBBB'' \<mapsto> 3000,
                   ''CCCCCCCCCCCCCCCCCCCC'' \<mapsto> 1000]\<rparr>"

definition example_engine :: Genaro where
  "example_engine =
     \<lparr>config = \<lparr>Epoch = 5000, ElectionPeriod = 1, ValidPeriod = 1, CommitteeMaxSize = 5\<rparr>,
      signer = ''BBBBBBBBBBBBBBBBBBBB''\<rparr>"

definition example_header :: Header where
  "example_header =
     \<lparr>ParentHash = ''parent'', UncleHash = [], Coinbase = zero_address, Root = [],
      TxHash = [], ReceiptHash = [], Bloom = [], Difficulty = 0, Number = 5000,
      GasLimit = 0, GasUsed = 0, Time = 100,
      Extra = Some \<lparr>CommitteeRank = [], Signature = ''signature'', Proportion = []\<rparr>,
      MixDigest = [], Nonce = []\<rparr>"

definition example_parent :: Header where
  "example_parent = example_header\<lparr>ParentHash := ''grandparent'', Number := 4999, Time := 100\<rparr>"

definition example_env :: Collaborators where
  "example_env =
     \<lparr>now = 100,
      snapshot = (\<lambda>epoch. Inr example_snapshot),
      GetTurnOfCommiteeByBlockNumber = (\<lambda>cfg number. 0),
      GetHeader = (\<lambda>h number. if h = ''parent'' \<and> number = 4999 then Some example_parent else None),
      inturn = (\<lambda>snap number addr. True),
      rlp_Keccak256 = (\<lambda>fields. []),
      crypto_Ecrecover = (\<lambda>h sig. Inl (ErrExternal ''recovery failed'')),
      Keccak256 = (\<lambda>b. [])\<rparr>"

section \<open>Properties\<close>

subsection \<open>The reward ledger keys\<close>

lemma BytesToAddress_keys:
  "BytesToAddress SurplusCoinAddress =
     [CHR 0x00, CHR 0x00, CHR 0x00, CHR 0x00, CHR 0x00, CHR 0x00, CHR 0x00,
      CHR 0x00, CHR 0x00, CHR 0x00, CHR 0x00, CHR 0x00, CHR 0x00, CHR 0x00,
      CHR 0x00, CHR 0x00, CHR 0x00]
     @ ''aaa''"
  "BytesToAddress CoinActualRewardsAddress =
     [CHR 0x00, CHR 0x00, CHR 0x00, CHR 0x00, CHR 0x00, CHR 0x00, CHR 0x00,
      CHR 0x00, CHR 0x00, CHR 0x00, CHR 0x00, CHR 0x00, CHR 0x00, CHR 0x00,
      CHR 0x00, CHR 0x00, CHR 0x00]
     @ ''bbb''"
  "BytesToAddress StorageActualRewardsAddress =
     [CHR 0x00, CHR 0x00, CHR 0x00, CHR 0x00, CHR 0x00, CHR 0x00, CHR 0x00,
      CHR 0x00, CHR 0x00, CHR 0x00, CHR 0x00, CHR 0x00, CHR 0x00, CHR 0x00,
      CHR 0x00, CHR 0x00, CHR 0x00]
     @ ''ccc''"
  "BytesToAddress TotalActualRewardsAddress =
     [CHR 0x00, CHR 0x00, CHR 0x00, CHR 0x00, CHR 0x00, CHR 0x00, CHR 0x00,
      CHR 0x00, CHR 0x00, CHR 0x00, CHR 0x00, CHR 0x00, CHR 0x00, CHR 0x00,
      CHR 0x00, CHR 0x00, CHR 0x00]
     @ ''ggg''"
  "BytesToAddress (Pre @ SurplusCoinAddress) =
     [CHR 0x00, CHR 0x00, CHR 0x00, CHR 0x00, CHR 0x00, CHR 0x00, CHR 0x00,
      CHR 0x00, CHR 0x00, CHR 0x00, CHR 0x00, CHR 0x00, CHR 0x00, CHR 0x00]
     @ ''preaaa''"
  "BytesToAddress (Pre @ CoinActualRewardsAddress) =
     [CHR 0x00, CHR 0x00, CHR 0x00, CHR 0x00, CHR 0x00, CHR 0x00, CHR 0x00,
      CHR 0x00, CHR 0x00, CHR 0x00, CHR 0x00, CHR 0x00, CHR 0x00, CHR 0x00]
     @ ''prebbb''"
  "BytesToAddress (Pre @ StorageActualRewardsAddress) =
     [CHR 0x00, CHR 0x00, CHR 0x00, CHR 0x00, CHR 0x00, CHR 0x00, CHR 0x00,
      CHR 0x00, CHR 0x00, CHR 0x00, CHR 0x00, CHR 0x00, CHR 0x00, CHR 0x00]
     @ ''preccc''"
  by (simp_all add: BytesToAddress_def AddressLength_def Pre_def SurplusCoinAddress_def
      CoinActualRewardsAddress_def StorageActualRewardsAddress_def
      TotalActualRewardsAddress_def eval_nat_numeral)

lemma ledger_keys_distinct:
  "BytesToAddress (Pre @ SurplusCoinAddress) \<noteq> BytesToAddress SurplusCoinAddress"
  "BytesToAddress (Pre @ SurplusCoinAddress) \<noteq> BytesToAddress TotalActualRewardsAddress"
  "BytesToAddress SurplusCoinAddress \<noteq> BytesToAddress TotalActualRewardsAddress"
  by (simp_all add: BytesToAddress_keys)

subsection \<open>Year-boundary surplus update\<close>

text \<open>
  Claim C8. At a year boundary \<open>updateEpochYearRewards\<close> stores the surplus balance it
  found in the previous-year snapshot, leaves the surplus pool at exactly the old surplus
  minus the total-rewards-paid accumulator it found, and leaves that accumulator at zero.
\<close>

theorem updateEpochYearRewards_exact:
  "GetBalance (updateEpochYearRewards st) (BytesToAddress (Pre @ SurplusCoinAddress))
     = GetBalance st (BytesToAddress SurplusCoinAddress)
   \<and> GetBalance (updateEpochYearRewards st) (BytesToAddress SurplusCoinAddress)
     = GetBalance st (BytesToAddress SurplusCoinAddress)
       - GetBalance st (BytesToAddress TotalActualRewardsAddress)
   \<and> GetBalance (updateEpochYearRewards st) (BytesToAddress TotalActualRewardsAddress) = 0"
  by (simp add: updateEpochYearRewards_def GetBalance_def SetBalance_def SubBalance_def
      Let_def ledger_keys_distinct ledger_keys_distinct [symmetric])

subsection \<open>Big-integer division\<close>

lemma euclid_div_remainder:
  "y \<noteq> 0 \<Longrightarrow> 0 \<le> x - euclid_div x y * y \<and> x - euclid_div x y * y < \<bar>y\<bar>"
proof (cases "0 < y")
  case True
  have "x - x div y * y = x mod y" by (simp add: minus_div_mult_eq_mod)
  with True show ?thesis by (simp add: euclid_div_def)
next
  case False
  assume "y \<noteq> 0"
  with False have neg: "0 < - y" by simp
  have "x - (- (x div (- y))) * y = x mod (- y)"
    by (simp add: minus_div_mult_eq_mod [symmetric])
  with neg False show ?thesis by (simp add: euclid_div_def)
qed

subsection \<open>The coin coefficient\<close>

text \<open>
  With no reward paid in the previous period, a coefficient of \<open>base\<close> and a
  proportion of \<open>base\<close>, \<open>accumulateInterestRewards\<close> credits exactly the planned
  reward as the specification words it: the surplus times the coin ratio over base, over
  the per-year epoch count \<open>epochPerYear\<close>, over the epoch length.
\<close>

lemma accumulateInterestRewards_planned:
  assumes "0 < sint (Epoch cfg)" and "Epoch cfg * epochPerYear \<noteq> 0"
    and "0 \<le> GetBalance st (BytesToAddress SurplusCoinAddress)"
    and "GetBalance st (BytesToAddress (Pre @ CoinActualRewardsAddress)) = 0"
  shows "accumulateInterestRewards cfg st header (word_of_int base) n =
     Some (AddBalance
       (AddBalance st (Coinbase header)
          (spec_plannedPerEpoch cfg (GetBalance st (BytesToAddress SurplusCoinAddress))))
       (BytesToAddress CoinActualRewardsAddress)
       (spec_plannedPerEpoch cfg (GetBalance st (BytesToAddress SurplusCoinAddress))))"
  using assms
  by (simp add: accumulateInterestRewards_def u64_mod_def getCoinCofficient_def big_Div_def
      euclid_div_def spec_plannedPerEpoch_def base_def coinRewardsRatio_def epochPerYear_def
      Let_def)

text \<open>
  Claim C3 at concrete inputs. With an epoch of 5000 blocks, 1000 paid in the previous
  period and a surplus of 8400000000, the coefficient of the specification, whose planned
  reward is derived as in \<open>accumulateInterestRewards\<close> (over the per-year epoch count
  and the epoch length), is 175000; \<open>getCoinCofficient\<close>, which divides by
  \<open>ratioPerYear\<close> and multiplies by \<open>base\<close> instead, returns 30000000. With the same
  surplus \<open>accumulateInterestRewards\<close> plans 17500 per block, 87500000 over the 5000
  blocks of an epoch; for a previous period paid exactly that, \<open>getCoinCofficient\<close>
  returns 342, about a thirtieth of \<open>base\<close>.
\<close>

theorem getCoinCofficient_not_spec_coefficient:
  "getCoinCofficient \<lparr>Epoch = 5000, ElectionPeriod = 1, ValidPeriod = 1, CommitteeMaxSize = 5\<rparr>
       1000 8400000000 = Some 30000000
   \<and> spec_coefficient \<lparr>Epoch = 5000, ElectionPeriod = 1, ValidPeriod = 1, CommitteeMaxSize = 5\<rparr>
       1000 8400000000 = 175000
   \<and> getCoinCofficient \<lparr>Epoch = 5000, ElectionPeriod = 1, ValidPeriod = 1, CommitteeMaxSize = 5\<rparr>
       1000 8400000000
     \<noteq> Some (word_of_int (spec_coefficient
         \<lparr>Epoch = 5000, ElectionPeriod = 1, ValidPeriod = 1, CommitteeMaxSize = 5\<rparr>
         1000 8400000000))
   \<and> spec_plannedPerEpoch \<lparr>Epoch = 5000, ElectionPeriod = 1, ValidPeriod = 1, CommitteeMaxSize = 5\<rparr>
       8400000000 = 17500
   \<and> getCoinCofficient \<lparr>Epoch = 5000, ElectionPeriod = 1, ValidPeriod = 1, CommitteeMaxSize = 5\<rparr>
       (5000 * 17500) 8400000000 = Some 342"
  by (simp add: getCoinCofficient_def big_Div_def euclid_div_def big_Uint64_def
      spec_coefficient_def spec_plannedPerEpoch_def coinRewardsRatio_def base_def
      ratioPerYear_def epochPerYear_def)

subsection \<open>The storage reward\<close>

text \<open>
  Claim C1 at a concrete block. The surplus pool holds 9600 and the epoch is one block
  long, so the block reward is 100. Candidate A contributed a heft of 3 and candidate B
  none. Apportioned by contribution, A would be credited \<open>100 * 3 / 3 = 100\<close> and B
  nothing; \<open>accumulateStorageRewards\<close> credits \<open>100 / 3 = 33\<close> to each of them, and 66
  to the storage-rewards-paid counter.
\<close>

theorem accumulateStorageRewards_equal_shares:
  "map_option
     (\<lambda>st. (GetBalance st ''AAAAAAAAAAAAAAAAAAAA'', GetBalance st ''BBBBBBBBBBBBBBBBBBBB'',
            GetBalance st (BytesToAddress StorageActualRewardsAddress)))
     (accumulateStorageRewards
        \<lparr>Epoch = 1, ElectionPeriod = 1, ValidPeriod = 1, CommitteeMaxSize = 5\<rparr>
        \<lparr>balances = (\<lambda>a. 0)(BytesToAddress SurplusCoinAddress := 9600),
         candidates = [''AAAAAAAAAAAAAAAAAAAA'', ''BBBBBBBBBBBBBBBBBBBB''],
         heftLastDiff = (\<lambda>c n. if c = ''AAAAAAAAAAAAAAAAAAAA'' then 3 else 0),
         alreadyBackStakeList = []\<rparr>
        1)
   = Some (33, 33, 66)"
  by (simp add: accumulateStorageRewards_def getStorageCoefficient_def u64_mod_def
      big_Div_def euclid_div_def GetBalance_def AddBalance_def GetCandidates_def
      GetHeftLastDiff_def BytesToAddress_keys storageRewardsRatio_def base_def
      epochPerYear_def)

section \<open>Properties of the committee ranking\<close>

subsection \<open>The two loops of Rank\<close>

lemma Rank_total_sum: "Rank_total cs t = t + sum_list (map Stake cs)"
  by (induction cs arbitrary: t) (simp_all add: add.assoc)

lemma Rank_fill_map:
  "t \<noteq> 0 \<Longrightarrow> i + length cs \<le> length cr \<Longrightarrow> length pr = length cr \<Longrightarrow>
   Rank_fill cs i t (cr, pr) =
     Some (take i cr @ map Signer cs @ drop (i + length cs) cr,
           take i pr @ map (\<lambda>c. Stake c * word_of_int base div t) cs @ drop (i + length cs) pr)"
proof (induction cs arbitrary: i cr pr)
  case Nil
  then show ?case by simp
next
  case (Cons c cs)
  then have i: "i < length cr" "i < length pr" by simp_all
  from Cons.prems have "Rank_fill (c # cs) i t (cr, pr) =
      Rank_fill cs (Suc i) t (cr[i := Signer c], pr[i := Stake c * word_of_int base div t])"
    by simp
  also have "\<dots> = Some (take (Suc i) (cr[i := Signer c]) @ map Signer cs
                          @ drop (Suc i + length cs) (cr[i := Signer c]),
                        take (Suc i) (pr[i := Stake c * word_of_int base div t])
                          @ map (\<lambda>c. Stake c * word_of_int base div t) cs
                          @ drop (Suc i + length cs) (pr[i := Stake c * word_of_int base div t]))"
    using Cons.prems by (intro Cons.IH) simp_all
  finally show ?case using i
    by (simp add: take_Suc_conv_app_nth)
qed

lemma Rank_positive_total:
  assumes "Rank_total (sort_Sort (Apply cs)) 0 \<noteq> 0"
  shows "Rank Apply sort_Sort cs =
    Some (map Signer (sort_Sort (Apply cs)),
          map (\<lambda>c. Stake c * word_of_int base div Rank_total (sort_Sort (Apply cs)) 0)
            (sort_Sort (Apply cs)))"
  using assms by (simp add: Rank_def Let_def Rank_fill_map)

lemma div_add_le_add_div:
  fixes a b t :: nat
  shows "a div t + b div t \<le> (a + b) div t"
proof (cases "t = 0")
  case True
  then show ?thesis by simp
next
  case False
  have "(a div t + b div t) * t \<le> a + b"
    by (simp add: add_mult_distrib add_mono)
  then have "(a div t + b div t) * t div t \<le> (a + b) div t"
    by (rule div_le_mono)
  with False show ?thesis by simp
qed

lemma sum_list_div_le:
  fixes t :: nat
  shows "(\<Sum>x\<leftarrow>xs. f x div t) \<le> (\<Sum>x\<leftarrow>xs. f x) div t"
proof (induction xs)
  case Nil
  then show ?case by simp
next
  case (Cons x xs)
  have "f x div t + (\<Sum>x\<leftarrow>xs. f x) div t \<le> (f x + (\<Sum>x\<leftarrow>xs. f x)) div t"
    by (rule div_add_le_add_div)
  with Cons show ?case by simp
qed

lemma unat_sum_list:
  fixes ws :: "u64 list"
  shows "(\<Sum>w\<leftarrow>ws. unat w) < 2 ^ 64 \<Longrightarrow> unat (sum_list ws) = (\<Sum>w\<leftarrow>ws. unat w)"
proof (induction ws)
  case Nil
  then show ?case by simp
next
  case (Cons w ws)
  then have "unat (sum_list ws) = (\<Sum>w\<leftarrow>ws. unat w)" by simp
  moreover from Cons.prems have "unat w + (\<Sum>w\<leftarrow>ws. unat w) < 2 ^ LENGTH(64)" by simp
  ultimately show ?case
    by (simp add: unat_add_lem [THEN iffD1])
qed

lemma unat_proportion:
  fixes s t :: u64
  assumes "unat s * 10000 < 2 ^ 64"
  shows "unat (s * word_of_int base div t) = unat s * 10000 div unat t"
proof -
  have "unat s * unat (10000 :: u64) < 2 ^ LENGTH(64)" using assms by simp
  then have "unat (s * 10000) = unat s * unat (10000 :: u64)"
    by (simp only: unat_mult_lem [THEN iffD1])
  then show ?thesis by (simp add: base_def unat_div)
qed


lemma Rank_zero_total_lists:
  assumes "Rank_total (sort_Sort (Apply cs)) 0 = 0"
  shows "Rank Apply sort_Sort cs =
    Some (replicate (length (sort_Sort (Apply cs))) zero_address,
          replicate (length (sort_Sort (Apply cs))) 0)"
  using assms by (simp add: Rank_def Let_def)

text \<open>The guard on the total keeps the division of the second loop from panicking.\<close>

lemma Rank_never_panics: "Rank Apply sort_Sort cs \<noteq> None"
  by (cases "Rank_total (sort_Sort (Apply cs)) 0 = 0")
    (simp_all add: Rank_zero_total_lists Rank_positive_total)

subsection \<open>A zero total stake\<close>

text \<open>
  Claim C4, as stated, fails. For one candidate with a stake of zero \<open>Rank\<close> returns
  one zero address and one zero proportion, not two empty lists.
\<close>

theorem Rank_zero_total_not_empty:
  "Rank (\<lambda>cs. cs) (\<lambda>cs. cs) [\<lparr>Signer = ''AAAAAAAAAAAAAAAAAAAA'', Heft = 0, Stake = 0\<rparr>]
     = Some ([zero_address], [0])
   \<and> Rank (\<lambda>cs. cs) (\<lambda>cs. cs) [\<lparr>Signer = ''AAAAAAAAAAAAAAAAAAAA'', Heft = 0, Stake = 0\<rparr>]
     \<noteq> Some ([], [])"
  by (simp add: Rank_def)

text \<open>
  Claim C4, amended. When the total stake (the \<open>uint64\<close> sum of the stakes) is zero,
  \<open>Rank\<close> divides nothing and returns an address list and a proportion list with one
  entry per candidate, every address the zero address and every proportion zero; the
  lists are empty only when there is no candidate.
\<close>

theorem Rank_zero_total:
  assumes "(\<Sum>c\<leftarrow>sort_Sort (Apply cs). Stake c) = 0"
  shows "Rank Apply sort_Sort cs =
    Some (replicate (length (sort_Sort (Apply cs))) zero_address,
          replicate (length (sort_Sort (Apply cs))) 0)"
  using assms by (intro Rank_zero_total_lists) (simp add: Rank_total_sum)

theorem Rank_zero_total_witness:
  "(\<Sum>c\<leftarrow>[\<lparr>Signer = ''AAAAAAAAAAAAAAAAAAAA'', Heft = 7, Stake = 0\<rparr>,
           \<lparr>Signer = ''BBBBBBBBBBBBBBBBBBBB'', Heft = 0, Stake = 0\<rparr>]. Stake c) = (0 :: u64)
   \<and> Rank (\<lambda>cs. cs) (\<lambda>cs. cs)
        [\<lparr>Signer = ''AAAAAAAAAAAAAAAAAAAA'', Heft = 7, Stake = 0\<rparr>,
         \<lparr>Signer = ''BBBBBBBBBBBBBBBBBBBB'', Heft = 0, Stake = 0\<rparr>]
     = Some ([zero_address, zero_address], [0, 0])"
proof -
  let ?cs = "[\<lparr>Signer = ''AAAAAAAAAAAAAAAAAAAA'', Heft = 7, Stake = 0\<rparr>,
              \<lparr>Signer = ''BBBBBBBBBBBBBBBBBBBB'', Heft = 0, Stake = (0 :: u64)\<rparr>]"
  have h: "(\<Sum>c\<leftarrow>(\<lambda>cs. cs) ((\<lambda>cs. cs) ?cs). Stake c) = 0" by simp
  from Rank_zero_total [of "\<lambda>cs. cs" "\<lambda>cs. cs" ?cs, OF h] show ?thesis
    by (simp add: eval_nat_numeral)
qed

subsection \<open>A positive total stake\<close>

text \<open>
  Ten thousand and one candidates with a stake of 1844674407370955 each: no product
  \<open>stake * 10000\<close> wraps, the sum of the stakes does, to 1844674407369339, and every
  candidate is assigned the proportion 10000.
\<close>

lemma Rank_replicate_sum_wrap:
  "Rank (\<lambda>cs. cs) (\<lambda>cs. cs)
      (replicate 10001 \<lparr>Signer = ''AAAAAAAAAAAAAAAAAAAA'', Heft = 0, Stake = 1844674407370955\<rparr>)
     = Some (replicate 10001 ''AAAAAAAAAAAAAAAAAAAA'', replicate 10001 10000)"
proof -
  let ?c = "\<lparr>Signer = ''AAAAAAAAAAAAAAAAAAAA'', Heft = 0, Stake = (1844674407370955 :: u64)\<rparr>"
  have t: "Rank_total (replicate 10001 ?c) 0 = 1844674407369339"
    by (simp add: Rank_total_sum sum_list_replicate)
  then have nz: "Rank_total ((\<lambda>cs. cs) ((\<lambda>cs. cs) (replicate 10001 ?c))) 0 \<noteq> 0"
    by simp
  from Rank_positive_total [of "\<lambda>cs. cs" "\<lambda>cs. cs" "replicate 10001 ?c", OF nz] t
  show ?thesis by (simp add: base_def)
qed

text \<open>
  Claim C6, as stated, fails where the \<open>uint64\<close> arithmetic wraps. One candidate with
  a stake of \<open>2^63\<close> has a positive total stake and the share \<open>stake * 10000 / total\<close>
  is 10000, but the product wraps to zero and \<open>Rank\<close> assigns the proportion 0. Two
  candidates with stakes \<open>2^64 - 1\<close> and 2 are assigned proportions that sum to far
  more than 10000. So are the ten thousand and one candidates above, where only the sum
  of the stakes wraps: their proportions sum to 100010000.
\<close>

theorem Rank_proportions_wrap:
  "Rank (\<lambda>cs. cs) (\<lambda>cs. cs)
      [\<lparr>Signer = ''AAAAAAAAAAAAAAAAAAAA'', Heft = 0, Stake = 9223372036854775808\<rparr>]
     = Some ([''AAAAAAAAAAAAAAAAAAAA''], [0])
   \<and> (9223372036854775808 :: nat) * 10000 div 9223372036854775808 = 10000
   \<and> Rank (\<lambda>cs. cs) (\<lambda>cs. cs)
      [\<lparr>Signer = ''AAAAAAAAAAAAAAAAAAAA'', Heft = 0, Stake = 18446744073709551615\<rparr>,
       \<lparr>Signer = ''BBBBBBBBBBBBBBBBBBBB'', Heft = 0, Stake = 2\<rparr>]
     = Some ([''AAAAAAAAAAAAAAAAAAAA'', ''BBBBBBBBBBBBBBBBBBBB''],
             [18446744073709541616, 20000])
   \<and> Rank (\<lambda>cs. cs) (\<lambda>cs. cs)
      (replicate 10001 \<lparr>Signer = ''AAAAAAAAAAAAAAAAAAAA'', Heft = 0, Stake = 1844674407370955\<rparr>)
     = Some (replicate 10001 ''AAAAAAAAAAAAAAAAAAAA'', replicate 10001 10000)
   \<and> (\<Sum>p\<leftarrow>replicate 10001 (10000 :: u64). unat p) = 100010000"
proof -
  have "Rank (\<lambda>cs. cs) (\<lambda>cs. cs)
      [\<lparr>Signer = ''AAAAAAAAAAAAAAAAAAAA'', Heft = 0, Stake = 9223372036854775808\<rparr>]
     = Some ([''AAAAAAAAAAAAAAAAAAAA''], [0])
   \<and> (9223372036854775808 :: nat) * 10000 div 9223372036854775808 = 10000
   \<and> Rank (\<lambda>cs. cs) (\<lambda>cs. cs)
      [\<lparr>Signer = ''AAAAAAAAAAAAAAAAAAAA'', Heft = 0, Stake = 18446744073709551615\<rparr>,
       \<lparr>Signer = ''BBBBBBBBBBBBBBBBBBBB'', Heft = 0, Stake = 2\<rparr>]
     = Some ([''AAAAAAAAAAAAAAAAAAAA'', ''BBBBBBBBBBBBBBBBBBBB''],
             [18446744073709541616, 20000])"
    by (simp add: Rank_def base_def zero_address_def AddressLength_def)
  moreover have "(\<Sum>p\<leftarrow>replicate 10001 (10000 :: u64). unat p) = 100010000"
    by (simp add: sum_list_replicate)
  ultimately show ?thesis using Rank_replicate_sum_wrap by simp
qed

text \<open>
  Claim C6, amended. \<open>Apply\<close> and the sort work in place, so they keep the number of
  candidates. For a candidate set with a positive total stake in which neither the sum
  of the stakes nor any product \<open>stake * 10000\<close> wraps around in a \<open>uint64\<close>,
  \<open>Rank\<close> returns one address and one proportion per candidate (so no more than the
  input has), the proportion of each candidate is \<open>stake * 10000 div total\<close>, and the
  proportions sum to at most 10000.
\<close>

theorem Rank_proportions:
  assumes len: "length (sort_Sort (Apply cs)) = length cs"
    and pos: "0 < (\<Sum>c\<leftarrow>sort_Sort (Apply cs). unat (Stake c))"
    and sum_nowrap: "(\<Sum>c\<leftarrow>sort_Sort (Apply cs). unat (Stake c)) < 2 ^ 64"
    and prod_nowrap: "\<forall>c \<in> set (sort_Sort (Apply cs)). unat (Stake c) * 10000 < 2 ^ 64"
  shows "\<exists>committeeRank proportion.
      Rank Apply sort_Sort cs = Some (committeeRank, proportion)
      \<and> length committeeRank = length cs \<and> length proportion = length cs
      \<and> (\<forall>i<length cs.
           committeeRank ! i = Signer (sort_Sort (Apply cs) ! i)
           \<and> unat (proportion ! i) =
               unat (Stake (sort_Sort (Apply cs) ! i)) * 10000
                 div (\<Sum>c\<leftarrow>sort_Sort (Apply cs). unat (Stake c)))
      \<and> (\<Sum>p\<leftarrow>proportion. unat p) \<le> 10000"
proof -
  define cs' where "cs' = sort_Sort (Apply cs)"
  define T where "T = (\<Sum>c\<leftarrow>cs'. unat (Stake c))"
  define t where "t = Rank_total cs' 0"
  define pr where "pr = map (\<lambda>c. Stake c * word_of_int base div t) cs'"
  have T_pos: "0 < T" and T_small: "T < 2 ^ 64"
    using pos sum_nowrap by (simp_all add: T_def cs'_def)
  have "unat (sum_list (map Stake cs')) = (\<Sum>w\<leftarrow>map Stake cs'. unat w)"
    using T_small by (intro unat_sum_list) (simp add: T_def comp_def)
  then have t_T: "unat t = T"
    by (simp add: t_def T_def Rank_total_sum comp_def)
  with T_pos have t_nz: "t \<noteq> 0" by (auto simp: unat_gt_0 [symmetric])
  have rank: "Rank Apply sort_Sort cs = Some (map Signer cs', pr)"
    using t_nz Rank_positive_total [of sort_Sort Apply cs]
    by (simp add: cs'_def t_def pr_def)
  have share: "unat (Stake c * word_of_int base div t) = unat (Stake c) * 10000 div T"
    if "c \<in> set cs'" for c
  proof -
    from that prod_nowrap have "unat (Stake c) * 10000 < 2 ^ 64" by (simp add: cs'_def)
    then show ?thesis by (simp add: unat_proportion t_T)
  qed
  have "(\<Sum>p\<leftarrow>pr. unat p) = (\<Sum>c\<leftarrow>cs'. unat (Stake c * word_of_int base div t))"
    by (simp add: pr_def comp_def)
  also have "\<dots> = (\<Sum>c\<leftarrow>cs'. unat (Stake c) * 10000 div T)"
    using share by (intro arg_cong [where f = sum_list] map_cong) simp_all
  also have "\<dots> \<le> (\<Sum>c\<leftarrow>cs'. unat (Stake c) * 10000) div T"
    by (rule sum_list_div_le)
  also have "(\<Sum>c\<leftarrow>cs'. unat (Stake c) * 10000) = T * 10000"
    by (simp add: T_def sum_list_mult_const)
  also have "T * 10000 div T = 10000" using T_pos by simp
  finally have total: "(\<Sum>p\<leftarrow>pr. unat p) \<le> 10000" .
  have entries: "map Signer cs' ! i = Signer (cs' ! i)
      \<and> unat (pr ! i) = unat (Stake (cs' ! i)) * 10000 div T" if "i < length cs" for i
  proof -
    from that len have i: "i < length cs'" by (simp add: cs'_def)
    then have "cs' ! i \<in> set cs'" by simp
    from share [OF this] i show ?thesis by (simp add: pr_def)
  qed
  from rank total entries len show ?thesis
    by (simp add: cs'_def [symmetric] T_def [symmetric] pr_def)
qed

theorem Rank_proportions_witness:
  "0 < (\<Sum>c\<leftarrow>[\<lparr>Signer = ''AAAAAAAAAAAAAAAAAAAA'', Heft = 0, Stake = 1000000000000000\<rparr>,
               \<lparr>Signer = ''BBBBBBBBBBBBBBBBBBBB'', Heft = 0, Stake = 1000000000000000\<rparr>,
               \<lparr>Signer = ''CCCCCCCCCCCCCCCCCCCC'', Heft = 0, Stake = 1000000000000000\<rparr>].
            unat (Stake c))
   \<and> (\<exists>committeeRank proportion.
        Rank (\<lambda>cs. cs) (\<lambda>cs. cs)
          [\<lparr>Signer = ''AAAAAAAAAAAAAAAAAAAA'', Heft = 0, Stake = 1000000000000000\<rparr>,
           \<lparr>Signer = ''BBBBBBBBBBBBBBBBBBBB'', Heft = 0, Stake = 1000000000000000\<rparr>,
           \<lparr>Signer = ''CCCCCCCCCCCCCCCCCCCC'', Heft = 0, Stake = 1000000000000000\<rparr>]
          = Some (committeeRank, proportion)
        \<and> length committeeRank = 3 \<and> length proportion = 3
        \<and> unat (proportion ! 0) = 3333
        \<and> (\<Sum>p\<leftarrow>proportion. unat p) \<le> 10000)"
proof -
  let ?cs = "[\<lparr>Signer = ''AAAAAAAAAAAAAAAAAAAA'', Heft = 0, Stake = 1000000000000000\<rparr>,
              \<lparr>Signer = ''BBBBBBBBBBBBBBBBBBBB'', Heft = 0, Stake = 1000000000000000\<rparr>,
              \<lparr>Signer = ''CCCCCCCCCCCCCCCCCCCC'', Heft = 0,
               Stake = (1000000000000000 :: u64)\<rparr>]"
  have len: "length ((\<lambda>cs. cs) ((\<lambda>cs. cs) ?cs)) = length ?cs" by simp
  have pos: "0 < (\<Sum>c\<leftarrow>(\<lambda>cs. cs) ((\<lambda>cs. cs) ?cs). unat (Stake c))" by simp
  have sum_nowrap: "(\<Sum>c\<leftarrow>(\<lambda>cs. cs) ((\<lambda>cs. cs) ?cs). unat (Stake c)) < 2 ^ 64"
    by simp
  have prod_nowrap:
    "\<forall>c \<in> set ((\<lambda>cs. cs) ((\<lambda>cs. cs) ?cs)). unat (Stake c) * 10000 < 2 ^ 64"
    by simp
  from Rank_proportions [of "\<lambda>cs. cs" "\<lambda>cs. cs" ?cs, OF len pos sum_nowrap prod_nowrap]
  obtain committeeRank proportion where
    r: "Rank (\<lambda>cs. cs) (\<lambda>cs. cs) ?cs = Some (committeeRank, proportion)"
    and l: "length committeeRank = length ?cs" "length proportion = length ?cs"
    and e: "\<forall>i<length ?cs. committeeRank ! i = Signer (?cs ! i)
           \<and> unat (proportion ! i) =
               unat (Stake (?cs ! i)) * 10000 div (\<Sum>c\<leftarrow>?cs. unat (Stake c))"
    and t: "(\<Sum>p\<leftarrow>proportion. unat p) \<le> 10000"
    by auto
  from e have "unat (proportion ! 0) = 3333" by simp
  with r l t pos show ?thesis by simp
qed

section \<open>Properties of block production and verification\<close>

subsection \<open>Difficulty\<close>











subsection \<open>The timestamp that Prepare sets\<close>

lemma sint_big_Int64:
  "- (2 ^ 63) \<le> x \<Longrightarrow> x < 2 ^ 63 \<Longrightarrow> sint (big_Int64 x) = x"
  by (simp add: big_Int64_def signed_of_int signed_take_bit_int_eq_self)

lemma big_Int64_sint: "big_Int64 (sint w) = w"
  by (simp add: big_Int64_def)

lemma sint_big_Int64_succ:
  "- (2 ^ 63) \<le> x \<Longrightarrow> x < 2 ^ 63 - 1 \<Longrightarrow> sint (big_Int64 x + 1) = x + 1"
proof -
  assume a: "- (2 ^ 63) \<le> x" "x < 2 ^ 63 - 1"
  have "big_Int64 x + 1 = big_Int64 (x + 1)" by (simp add: big_Int64_def)
  with a show ?thesis by (simp add: sint_big_Int64)
qed

lemma example_parent_found:
  "GetHeader example_env (ParentHash example_header) (big_Uint64 (Number example_header) - 1)
     = Some example_parent"
  by (simp add: example_env_def example_header_def big_Uint64_def)

lemma example_Prepare_clock:
  "Prepare (example_env\<lparr>now := t\<rparr>) example_engine example_header =
     (example_header
        \<lparr>Coinbase := ''BBBBBBBBBBBBBBBBBBBB'', Nonce := zero_nonce, Difficulty := 2,
         MixDigest := zero_hash,
         Time := (if sint t < 100 then 101 else sint t)\<rparr>, None)"
  by (simp add: Prepare_def example_env_def example_engine_def example_header_def
      example_parent_def example_snapshot_def big_Uint64_def big_Int64_def
      CalcDifficulty_def getCurrentRankIndex_def Let_def)

text \<open>
  Claim C2, as stated, fails. With the wall clock at 100 and a parent with timestamp 100,
  \<open>Prepare\<close> succeeds and leaves the timestamp at 100: not \<open>max(now, parentTime + 1)\<close>,
  which is 101, and not strictly greater than the parent's.
\<close>

theorem Prepare_equal_clock:
  "snd (Prepare example_env example_engine example_header) = None
   \<and> sint (now example_env) = 100
   \<and> Time example_parent = 100
   \<and> Time (fst (Prepare example_env example_engine example_header)) = 100
   \<and> Time (fst (Prepare example_env example_engine example_header))
       \<noteq> max (sint (now example_env)) (Time example_parent + 1)
   \<and> \<not> Time example_parent < Time (fst (Prepare example_env example_engine example_header))"
proof -
  have "example_env\<lparr>now := 100\<rparr> = example_env" by (simp add: example_env_def)
  with example_Prepare_clock [of 100]
  have "Prepare example_env example_engine example_header =
     (example_header
        \<lparr>Coinbase := ''BBBBBBBBBBBBBBBBBBBB'', Nonce := zero_nonce, Difficulty := 2,
         MixDigest := zero_hash, Time := 100\<rparr>, None)"
    by simp
  then show ?thesis by (simp add: example_env_def example_parent_def example_header_def)
qed

text \<open>
  Claim C2, amended. Whenever \<open>Prepare\<close> succeeds, on a parent whose timestamp is an
  \<open>int64\<close> below the largest one, it sets the header timestamp to the wall clock when
  the clock is not before the parent's timestamp, and to the parent's timestamp plus one
  when it is. The timestamp is never less than the parent's, and equal to it exactly when
  the clock reads the parent's timestamp.
\<close>

theorem Prepare_timestamp:
  assumes ok: "snd (Prepare env g header) = None"
    and parent: "GetHeader env (ParentHash header) (big_Uint64 (Number header) - 1) = Some parent"
    and lo: "- (2 ^ 63) \<le> Time parent" and hi: "Time parent < 2 ^ 63 - 1"
  shows "Time (fst (Prepare env g header))
           = (if sint (now env) < Time parent then Time parent + 1 else sint (now env))
     \<and> Time parent \<le> Time (fst (Prepare env g header))
     \<and> (Time (fst (Prepare env g header)) = Time parent \<longleftrightarrow> sint (now env) = Time parent)"
proof -
  from hi have hi': "Time parent < 2 ^ 63" by simp
  obtain snap where snap:
    "snapshot env (GetTurnOfCommiteeByBlockNumber env (config g) (big_Uint64 (Number header)))
       = Inr snap"
    using ok by (auto simp: Prepare_def Let_def split: sum.splits)
  have "Time (fst (Prepare env g header))
      = (if sint (now env) < Time parent then Time parent + 1 else sint (now env))"
    using snap parent lo hi hi'
    by (simp add: Prepare_def Let_def big_Int64_sint sint_big_Int64 sint_big_Int64_succ)
  then show ?thesis by auto
qed

theorem Prepare_timestamp_witness:
  "snd (Prepare (example_env\<lparr>now := 50\<rparr>) example_engine example_header) = None
   \<and> Time example_parent = 100
   \<and> Time (fst (Prepare (example_env\<lparr>now := 50\<rparr>) example_engine example_header)) = 101
   \<and> Time example_parent
       \<le> Time (fst (Prepare (example_env\<lparr>now := 50\<rparr>) example_engine example_header))"
proof -
  have ok: "snd (Prepare (example_env\<lparr>now := 50\<rparr>) example_engine example_header) = None"
    by (simp add: example_Prepare_clock)
  have parent: "GetHeader (example_env\<lparr>now := 50\<rparr>) (ParentHash example_header)
      (big_Uint64 (Number example_header) - 1) = Some example_parent"
    using example_parent_found by (simp add: example_env_def)
  have t: "Time example_parent = 100"
    by (simp add: example_parent_def example_header_def)
  have lo: "- (2 ^ 63) \<le> Time example_parent" and hi: "Time example_parent < 2 ^ 63 - 1"
    by (simp_all add: t)
  from Prepare_timestamp [OF ok parent lo hi] ok t show ?thesis
    by (simp add: example_env_def)
qed

subsection \<open>Epoch-boundary headers in VerifySeal\<close>

text \<open>
  Claim C7, as stated, fails. Two checks come before the committee list is looked at. The
  header of block 5000 with an empty committee list and a timestamp after the local clock
  fails with \<open>FutureBlock\<close>, and the header of block 0, whose number the epoch length
  divides as well, fails with \<open>UnknownBlock\<close>.
\<close>

theorem VerifySeal_epoch_block_earlier_checks:
  "big_Uint64 (Number (example_header\<lparr>Time := 200\<rparr>)) mod Epoch (config example_engine) = 0
   \<and> UnmarshalToExtra (example_header\<lparr>Time := 200\<rparr>)
       = Some \<lparr>CommitteeRank = [], Signature = ''signature'', Proportion = []\<rparr>
   \<and> snd (VerifySeal example_env example_engine (example_header\<lparr>Time := 200\<rparr>))
       = Err ErrFutureBlock
   \<and> snd (VerifySeal example_env example_engine (example_header\<lparr>Time := 200\<rparr>))
       \<noteq> Err errInvalidEpochBlock
   \<and> big_Uint64 (Number (example_header\<lparr>Number := 0\<rparr>)) mod Epoch (config example_engine) = 0
   \<and> snd (VerifySeal example_env example_engine (example_header\<lparr>Number := 0\<rparr>))
       = Err errUnknownBlock
   \<and> snd (VerifySeal example_env example_engine (example_header\<lparr>Number := 0\<rparr>))
       \<noteq> Err errInvalidEpochBlock"
  by (simp add: VerifySeal_def example_engine_def example_header_def example_env_def
      big_Uint64_def UnmarshalToExtra_def Let_def)

text \<open>
  Claim C7, amended. For an epoch-boundary header (the nonzero epoch length divides the
  block number), \<open>VerifySeal\<close> returns \<open>UnknownBlock\<close> for block 0 and
  \<open>FutureBlock\<close> for a timestamp after the local clock. For every other one with a
  decodable extension payload it returns \<open>InvalidEpochBlock\<close> whenever the committee
  size read from the embedded committee list is zero or exceeds \<open>CommitteeMaxSize\<close>; in
  particular whenever the list is empty.
\<close>

theorem VerifySeal_epoch_block:
  assumes epoch: "Epoch (config g) \<noteq> 0"
    and boundary: "big_Uint64 (Number header) mod Epoch (config g) = 0"
  shows "(big_Uint64 (Number header) = 0 \<longrightarrow>
            snd (VerifySeal env g header) = Err errUnknownBlock)
     \<and> (big_Uint64 (Number header) \<noteq> 0 \<and> sint (now env) < Time header \<longrightarrow>
            snd (VerifySeal env g header) = Err ErrFutureBlock)
     \<and> (big_Uint64 (Number header) \<noteq> 0 \<and> Time header \<le> sint (now env)
          \<and> UnmarshalToExtra header = Some extraData
          \<and> ((word_of_nat (length (CommitteeRank extraData) div AddressLength) :: u64) = 0
              \<or> CommitteeMaxSize (config g)
                   < word_of_nat (length (CommitteeRank extraData) div AddressLength)) \<longrightarrow>
            snd (VerifySeal env g header) = Err errInvalidEpochBlock)
     \<and> (big_Uint64 (Number header) \<noteq> 0 \<and> Time header \<le> sint (now env)
          \<and> UnmarshalToExtra header = Some extraData \<and> CommitteeRank extraData = [] \<longrightarrow>
            snd (VerifySeal env g header) = Err errInvalidEpochBlock)"
  using epoch boundary
  by (auto simp: VerifySeal_def Let_def)

theorem VerifySeal_epoch_block_witness:
  "snd (VerifySeal example_env example_engine example_header) = Err errInvalidEpochBlock
   \<and> snd (VerifySeal example_env
            (example_engine\<lparr>config := (config example_engine)\<lparr>CommitteeMaxSize := 1\<rparr>\<rparr>)
            (example_header\<lparr>Extra := Some \<lparr>CommitteeRank =
                 ''AAAAAAAAAAAAAAAAAAAABBBBBBBBBBBBBBBBBBBB'',
               Signature = ''signature'', Proportion = [6000, 4000]\<rparr>\<rparr>))
       = Err errInvalidEpochBlock"
  using
    VerifySeal_epoch_block
      [of example_engine example_header example_env
          "\<lparr>CommitteeRank = [], Signature = ''signature'', Proportion = []\<rparr>"]
    VerifySeal_epoch_block
      [of "example_engine\<lparr>config := (config example_engine)\<lparr>CommitteeMaxSize := 1\<rparr>\<rparr>"
          "example_header\<lparr>Extra := Some \<lparr>CommitteeRank =
                 ''AAAAAAAAAAAAAAAAAAAABBBBBBBBBBBBBBBBBBBB'',
               Signature = ''signature'', Proportion = [6000, 4000]\<rparr>\<rparr>"
          example_env
          "\<lparr>CommitteeRank = ''AAAAAAAAAAAAAAAAAAAABBBBBBBBBBBBBBBBBBBB'',
               Signature = ''signature'', Proportion = [6000, 4000]\<rparr>"]
  by (simp add: example_engine_def example_header_def example_env_def big_Uint64_def
      UnmarshalToExtra_def AddressLength_def)

subsection \<open>Signature recovery leaves the header as it was\<close>

lemma Set_Reset_signature:
  "UnmarshalToExtra header = Some extraData \<Longrightarrow>
   SetHeaderSignature (ResetHeaderSignature header) (Signature extraData) = header"
  by (simp add: UnmarshalToExtra_def SetHeaderSignature_def ResetHeaderSignature_def)

text \<open>
  Claim C10. For a header with a decodable extension payload, \<open>ecrecover\<close> returns
  the header it was given, with the same payload: the signature that it clears, so that
  the hash is taken of the header without it, is set again before the function returns,
  when the recovery fails (the error is returned) as well as when it succeeds (the
  address derived from the public key is returned).
\<close>

theorem ecrecover_restores_header:
  assumes "UnmarshalToExtra header = Some extraData"
  shows "fst (ecrecover env header) = header
     \<and> UnmarshalToExtra (fst (ecrecover env header)) = Some extraData
     \<and> Signature (the (UnmarshalToExtra (ResetHeaderSignature header))) = []
     \<and> (\<forall>err. crypto_Ecrecover env (sigHash env (ResetHeaderSignature header))
                 (Signature extraData) = Inl err \<longrightarrow>
            ecrecover env header = (header, Err err))
     \<and> (\<forall>pubkey. crypto_Ecrecover env (sigHash env (ResetHeaderSignature header))
                 (Signature extraData) = Inr pubkey
               \<and> 1 \<le> length pubkey \<and> 12 \<le> length (Keccak256 env (drop 1 pubkey)) \<longrightarrow>
            ecrecover env header
              = (header, Ok (copy_address (drop 12 (Keccak256 env (drop 1 pubkey))))))"
proof -
  have "fst (ecrecover env header) = header"
    using assms Set_Reset_signature [OF assms]
    by (simp add: ecrecover_def Let_def split: sum.splits)
  moreover have "Signature (the (UnmarshalToExtra (ResetHeaderSignature header))) = []"
    using assms by (simp add: UnmarshalToExtra_def ResetHeaderSignature_def)
  moreover have "ecrecover env header = (header, Err err)"
    if "crypto_Ecrecover env (sigHash env (ResetHeaderSignature header))
          (Signature extraData) = Inl err" for err
    using assms that Set_Reset_signature [OF assms] by (simp add: ecrecover_def Let_def)
  moreover have "ecrecover env header
        = (header, Ok (copy_address (drop 12 (Keccak256 env (drop 1 pubkey)))))"
    if "crypto_Ecrecover env (sigHash env (ResetHeaderSignature header))
          (Signature extraData) = Inr pubkey
        \<and> 1 \<le> length pubkey \<and> 12 \<le> length (Keccak256 env (drop 1 pubkey))" for pubkey
    using assms that Set_Reset_signature [OF assms] by (auto simp: ecrecover_def Let_def)
  ultimately show ?thesis using assms by simp
qed

theorem ecrecover_restores_header_witness:
  "UnmarshalToExtra example_header
       = Some \<lparr>CommitteeRank = [], Signature = ''signature'', Proportion = []\<rparr>
   \<and> ecrecover example_env example_header
       = (example_header, Err (ErrExternal ''recovery failed''))
   \<and> ecrecover
        (example_env\<lparr>crypto_Ecrecover := (\<lambda>h sig. Inr ''0123''),
                     Keccak256 := (\<lambda>b. ''____________'' @ b)\<rparr>) example_header
       = (example_header, Ok (''123'' @ replicate 17 (CHR 0x00)))"
proof -
  have d: "UnmarshalToExtra example_header
       = Some \<lparr>CommitteeRank = [], Signature = ''signature'', Proportion = []\<rparr>"
    by (simp add: UnmarshalToExtra_def example_header_def)
  from ecrecover_restores_header [OF d, of example_env]
    ecrecover_restores_header [OF d, of "example_env\<lparr>crypto_Ecrecover := (\<lambda>h sig. Inr ''0123''),
                     Keccak256 := (\<lambda>b. ''____________'' @ b)\<rparr>"]
    d
  show ?thesis
    by (simp add: example_env_def copy_address_def AddressLength_def)
qed

section \<open>Properties of the back-stake maturation\<close>

text \<open>
  Each loop removes the entries from index \<open>i\<close> on whose maturity block has passed and
  keeps everything else in order.
\<close>

lemma handleAlreadyBackStakeList_loop_filter:
  "handleAlreadyBackStakeList_loop isBack cfg blockNumber i backlist =
     take i backlist
       @ filter (\<lambda>back. \<not> isBack cfg (BackBlockNumber back) blockNumber) (drop i backlist)"
proof (induction isBack cfg blockNumber i backlist
    rule: handleAlreadyBackStakeList_loop.induct)
  case (1 isBack cfg blockNumber i backlist)
  show ?case
  proof (cases "i < length backlist")
    case False
    then show ?thesis by simp
  next
    case True
    then have split: "drop i backlist = backlist ! i # drop (i + 1) backlist"
      by (simp add: Cons_nth_drop_Suc)
    show ?thesis
    proof (cases "isBack cfg (BackBlockNumber (backlist ! i)) blockNumber")
      case matured: True
      have "handleAlreadyBackStakeList_loop isBack cfg blockNumber i backlist =
          handleAlreadyBackStakeList_loop isBack cfg blockNumber i
            (take i backlist @ drop (i + 1) backlist)"
        using True matured by (subst handleAlreadyBackStakeList_loop.simps) simp
      also have "\<dots> = take i (take i backlist @ drop (i + 1) backlist)
          @ filter (\<lambda>back. \<not> isBack cfg (BackBlockNumber back) blockNumber)
              (drop i (take i backlist @ drop (i + 1) backlist))"
        using True matured by (intro "1.IH"(1)) simp_all
      finally show ?thesis using True matured split by simp
    next
      case pending: False
      have "handleAlreadyBackStakeList_loop isBack cfg blockNumber i backlist =
          handleAlreadyBackStakeList_loop isBack cfg blockNumber (i + 1) backlist"
        using True pending by (subst handleAlreadyBackStakeList_loop.simps) simp
      also have "\<dots> = take (i + 1) backlist
          @ filter (\<lambda>back. \<not> isBack cfg (BackBlockNumber back) blockNumber)
              (drop (i + 1) backlist)"
        using True pending by (intro "1.IH"(2)) simp_all
      finally show ?thesis using True pending split
        by (simp add: take_Suc_conv_app_nth)
    qed
  qed
qed

lemma handleApplyBackStakeList_loop_filter:
  "handleApplyBackStakeList_loop isBack cfg blockNumber i backlist =
     take i backlist
       @ filter (\<lambda>back. \<not> isBack cfg (BackBlockNumber back) blockNumber) (drop i backlist)"
proof (induction isBack cfg blockNumber i backlist
    rule: handleApplyBackStakeList_loop.induct)
  case (1 isBack cfg blockNumber i backlist)
  show ?case
  proof (cases "i < length backlist")
    case False
    then show ?thesis by simp
  next
    case True
    then have split: "drop i backlist = backlist ! i # drop (i + 1) backlist"
      by (simp add: Cons_nth_drop_Suc)
    show ?thesis
    proof (cases "isBack cfg (BackBlockNumber (backlist ! i)) blockNumber")
      case matured: True
      have "handleApplyBackStakeList_loop isBack cfg blockNumber i backlist =
          handleApplyBackStakeList_loop isBack cfg blockNumber i
            (take i backlist @ drop (i + 1) backlist)"
        using True matured by (subst handleApplyBackStakeList_loop.simps) simp
      also have "\<dots> = take i (take i backlist @ drop (i + 1) backlist)
          @ filter (\<lambda>back. \<not> isBack cfg (BackBlockNumber back) blockNumber)
              (drop i (take i backlist @ drop (i + 1) backlist))"
        using True matured by (intro "1.IH"(1)) simp_all
      finally show ?thesis using True matured split by simp
    next
      case pending: False
      have "handleApplyBackStakeList_loop isBack cfg blockNumber i backlist =
          handleApplyBackStakeList_loop isBack cfg blockNumber (i + 1) backlist"
        using True pending by (subst handleApplyBackStakeList_loop.simps) simp
      also have "\<dots> = take (i + 1) backlist
          @ filter (\<lambda>back. \<not> isBack cfg (BackBlockNumber back) blockNumber)
              (drop (i + 1) backlist)"
        using True pending by (intro "1.IH"(2)) simp_all
      finally show ?thesis using True pending split
        by (simp add: take_Suc_conv_app_nth)
    qed
  qed
qed

text \<open>
  Claim C9. \<open>handleAlreadyBackStakeList\<close> and \<open>handleApplyBackStakeList\<close> return the
  same state for every maturity predicate, config, header and state: the pending list
  without its matured entries, and every balance as it was.
\<close>

theorem handleBackStakeList_equal:
  "handleAlreadyBackStakeList isBack cfg header st = handleApplyBackStakeList isBack cfg header st
   \<and> GetAlreadyBackStakeList (handleApplyBackStakeList isBack cfg header st)
       = filter (\<lambda>back. \<not> isBack cfg (BackBlockNumber back) (big_Uint64 (Number header)))
           (GetAlreadyBackStakeList st)
   \<and> balances (handleApplyBackStakeList isBack cfg header st) = balances st"
  by (simp add: handleAlreadyBackStakeList_def handleApplyBackStakeList_def
      handleAlreadyBackStakeList_loop_filter handleApplyBackStakeList_loop_filter
      GetAlreadyBackStakeList_def SetAlreadyBackStakeList_def Let_def
      del: handleAlreadyBackStakeList_loop.simps handleApplyBackStakeList_loop.simps)

theorem handleBackStakeList_equal_witness:
  "handleAlreadyBackStakeList (\<lambda>cfg back number. back \<le> number)
       (config example_engine) (example_header\<lparr>Number := 5\<rparr>)
       \<lparr>balances = (\<lambda>a. 0), candidates = [], heftLastDiff = (\<lambda>c n. 0),
        alreadyBackStakeList =
          [\<lparr>BackAddr = ''AAAAAAAAAAAAAAAAAAAA'', BackBlockNumber = 1\<rparr>,
           \<lparr>BackAddr = ''BBBBBBBBBBBBBBBBBBBB'', BackBlockNumber = 9\<rparr>,
           \<lparr>BackAddr = ''CCCCCCCCCCCCCCCCCCCC'', BackBlockNumber = 2\<rparr>]\<rparr>
     = \<lparr>balances = (\<lambda>a. 0), candidates = [], heftLastDiff = (\<lambda>c n. 0),
        alreadyBackStakeList = [\<lparr>BackAddr = ''BBBBBBBBBBBBBBBBBBBB'', BackBlockNumber = 9\<rparr>]\<rparr>"
proof -
  let ?st = "\<lparr>balances = (\<lambda>a. 0 :: int), candidates = [], heftLastDiff = (\<lambda>c n. 0),
        alreadyBackStakeList =
          [\<lparr>BackAddr = ''AAAAAAAAAAAAAAAAAAAA'', BackBlockNumber = 1\<rparr>,
           \<lparr>BackAddr = ''BBBBBBBBBBBBBBBBBBBB'', BackBlockNumber = 9\<rparr>,
           \<lparr>BackAddr = ''CCCCCCCCCCCCCCCCCCCC'', BackBlockNumber = 2\<rparr>]\<rparr>"
  let ?r = "handleApplyBackStakeList (\<lambda>cfg back number. back \<le> number)
       (config example_engine) (example_header\<lparr>Number := 5\<rparr>) ?st"
  from handleBackStakeList_equal
    [of "\<lambda>cfg back number. back \<le> number" "config example_engine"
        "example_header\<lparr>Number := 5\<rparr>" ?st]
  have same: "handleAlreadyBackStakeList (\<lambda>cfg back number. back \<le> number)
       (config example_engine) (example_header\<lparr>Number := 5\<rparr>) ?st = ?r"
    and list: "alreadyBackStakeList ?r
      = [\<lparr>BackAddr = ''BBBBBBBBBBBBBBBBBBBB'', BackBlockNumber = 9\<rparr>]"
    by (simp_all add: GetAlreadyBackStakeList_def example_header_def big_Uint64_def)
  have rest: "balances ?r = (\<lambda>a. 0)" "candidates ?r = []" "heftLastDiff ?r = (\<lambda>c n. 0)"
    by (simp_all add: handleApplyBackStakeList_def SetAlreadyBackStakeList_def Let_def
        del: handleApplyBackStakeList_loop.simps)
  have "?r = \<lparr>balances = (\<lambda>a. 0), candidates = [], heftLastDiff = (\<lambda>c n. 0),
        alreadyBackStakeList = [\<lparr>BackAddr = ''BBBBBBBBBBBBBBBBBBBB'', BackBlockNumber = 9\<rparr>]\<rparr>"
    using list rest by (intro StateDB.equality) simp_all
  with same show ?thesis by simp
qed

end
